theory Spec2Isabelle
  imports Main "HOL-Library.Multiset"
begin

section \<open>The relational schema of \<open>hasjob/models/filterset.py\<close>\<close>

text \<open>
  \<open>JobType\<close>, \<open>JobCategory\<close>, \<open>Tag\<close> and \<open>Domain\<close> are used by the filter set
  only through their primary key and their \<open>name\<close> column, so one record describes a row of
  any of the four tables.
\<close>

record entity =
  ent_id :: nat
  ent_name :: string

text \<open>
  A row of one of the four association tables \<open>filterset_jobtype\<close>,
  \<open>filterset_jobcategory\<close>, \<open>filterset_tag\<close>, \<open>filterset_domain\<close>: the pair
  (\<open>filterset_id\<close>, id of the associated entity). The \<open>created_at\<close> column plays
  no part in any query of the model.
\<close>

type_synonym assoc = "nat \<times> nat"

text \<open>
  A row of the table \<open>filterset\<close>. \<open>pay_currency\<close> and \<open>pay_cash\<close> are the two
  nullable columns; the other columns are declared \<open>nullable=False\<close>. The columns of
  \<open>BaseScopedNameMixin\<close> (name, title) and \<open>description\<close> are not read by
  \<open>to_filters\<close> or \<open>from_filters\<close>. Geoname ids and pay are integers without bound
  here; a value beyond the range of the \<open>INTEGER\<close> columns is refused by the database
  driver before any row is compared, and is not part of the model.
\<close>

record filterset_row =
  row_id :: nat
  row_board_id :: nat
  row_geonameids :: "int list"
  row_remote_location :: bool
  row_pay_currency :: "string option"
  row_pay_cash :: "int option"
  row_equity :: bool
  row_keywords :: string

datatype kind = JobTypeK | JobCategoryK | TagK | DomainK

record database =
  filterset_table :: "filterset_row list"
  filterset_jobtype_table :: "assoc list"
  jobtype_table :: "entity list"
  filterset_jobcategory_table :: "assoc list"
  jobcategory_table :: "entity list"
  filterset_tag_table :: "assoc list"
  tag_table :: "entity list"
  filterset_domain_table :: "assoc list"
  domain_table :: "entity list"

fun assoc_table :: "database \<Rightarrow> kind \<Rightarrow> assoc list" where
  "assoc_table db JobTypeK = filterset_jobtype_table db"
| "assoc_table db JobCategoryK = filterset_jobcategory_table db"
| "assoc_table db TagK = filterset_tag_table db"
| "assoc_table db DomainK = filterset_domain_table db"

fun entity_table :: "database \<Rightarrow> kind \<Rightarrow> entity list" where
  "entity_table db JobTypeK = jobtype_table db"
| "entity_table db JobCategoryK = jobcategory_table db"
| "entity_table db TagK = tag_table db"
| "entity_table db DomainK = domain_table db"

section \<open>The mapped class \<open>Filterset\<close> and \<open>to_filters\<close>\<close>

text \<open>
  An instance of the mapped class as the session holds it: \<open>id\<close> is \<open>None\<close> until the
  row has been inserted, and the four relationships are lists of entity objects.
\<close>

record Filterset =
  fs_id :: "nat option"
  fs_board :: nat
  fs_types :: "entity list"
  fs_categories :: "entity list"
  fs_tags :: "entity list"
  fs_domains :: "entity list"
  fs_geonameids :: "int list"
  fs_remote_location :: bool
  fs_pay_currency :: "string option"
  fs_pay_cash :: "int option"
  fs_equity :: bool
  fs_keywords :: string

text \<open>Loading a relationship: the entities the association table links to the row.\<close>

definition related :: "database \<Rightarrow> kind \<Rightarrow> nat \<Rightarrow> entity list" where
  "related db k i =
     concat (map (\<lambda>a. filter (\<lambda>e. ent_id e = snd a) (entity_table db k))
                 (filter (\<lambda>a. fst a = i) (assoc_table db k)))"

definition load :: "database \<Rightarrow> filterset_row \<Rightarrow> Filterset" where
  "load db r =
     \<lparr> fs_id = Some (row_id r),
       fs_board = row_board_id r,
       fs_types = related db JobTypeK (row_id r),
       fs_categories = related db JobCategoryK (row_id r),
       fs_tags = related db TagK (row_id r),
       fs_domains = related db DomainK (row_id r),
       fs_geonameids = row_geonameids r,
       fs_remote_location = row_remote_location r,
       fs_pay_currency = row_pay_currency r,
       fs_pay_cash = row_pay_cash r,
       fs_equity = row_equity r,
       fs_keywords = row_keywords r \<rparr>"

text \<open>
  The filters dictionary. A field is \<open>None\<close> when the key is missing or its value is
  Python's \<open>None\<close>: \<open>filters.get\<close> does not tell the two apart, and
  \<open>from_filters\<close> reads \<open>filters[key]\<close> only after \<open>filters.get(key)\<close> was truthy.
\<close>

record filters =
  f_t :: "string list option"
  f_c :: "string list option"
  f_k :: "string list option"
  f_d :: "string list option"
  f_l :: "int list option"
  f_currency :: "string option"
  f_pay :: "int option"
  f_equity :: "bool option"
  f_anywhere :: "bool option"
  f_q :: "string option"

text \<open>
  \<open>to_filters\<close> with the default \<open>translate_geonameids=False\<close>: \<open>location_names\<close>
  stays unused and key \<open>l\<close> holds \<open>self.geonameids\<close>.
\<close>

definition to_filters :: "Filterset \<Rightarrow> filters" where
  "to_filters self =
     \<lparr> f_t = Some (map ent_name (fs_types self)),
       f_c = Some (map ent_name (fs_categories self)),
       f_k = Some (map ent_name (fs_tags self)),
       f_d = Some (map ent_name (fs_domains self)),
       f_l = Some (fs_geonameids self),
       f_currency = fs_pay_currency self,
       f_pay = fs_pay_cash self,
       f_equity = Some (fs_equity self),
       f_anywhere = Some (fs_remote_location self),
       f_q = Some (fs_keywords self) \<rparr>"

section \<open>Python truthiness of \<open>filters.get(key)\<close>\<close>

definition get_list :: "'a list option \<Rightarrow> 'a list" where
  "get_list v = (case v of None \<Rightarrow> [] | Some xs \<Rightarrow> xs)"

definition truthy_int :: "int option \<Rightarrow> bool" where
  "truthy_int v = (case v of None \<Rightarrow> False | Some n \<Rightarrow> n \<noteq> 0)"

definition truthy_bool :: "bool option \<Rightarrow> bool" where
  "truthy_bool v = (case v of None \<Rightarrow> False | Some b \<Rightarrow> b)"

section \<open>Comparing the \<open>CHAR(3)\<close> column \<open>pay_currency\<close>\<close>

text \<open>
  \<open>pay_currency\<close> is declared \<open>db.CHAR(3)\<close>. PostgreSQL stores such a value padded
  with blanks to three characters, reads it back padded, and compares it without regard to
  trailing blanks: the stored \<open>'US '\<close> equals the supplied \<open>'US'\<close>. A null column
  equals nothing.
\<close>

definition rstrip :: "string \<Rightarrow> string" where
  "rstrip s = rev (dropWhile (\<lambda>c. c = CHR '' '') (rev s))"

definition bpchar_eq :: "string option \<Rightarrow> string \<Rightarrow> bool" where
  "bpchar_eq col v = (case col of None \<Rightarrow> False | Some c \<Rightarrow> rstrip c = rstrip v)"

section \<open>The query builder\<close>

text \<open>
  A row of the joined relation: the \<open>filterset\<close> row and, for every pair of tables joined
  so far, the association row and the entity row it was joined with.
\<close>

record jrow =
  jr_filterset :: filterset_row
  jr_joined :: "kind \<rightharpoonup> assoc \<times> entity"

text \<open>
  A query under construction: the rows of FROM ... JOIN ... WHERE so far, whether
  \<open>group_by(Filterset.id)\<close> was called, and the HAVING conditions, each
  \<open>count(<association table>.filterset_id) == n\<close>.

  The query builder is generative: every \<open>join\<close> extends the one FROM clause, every
  \<open>filter\<close> is AND-ed to the one WHERE clause and every \<open>having\<close> to the one
  HAVING clause. With lists under \<open>t\<close> and \<open>c\<close> and the other keys absent, the
  statement that \<open>from_filters\<close> composes is
  \<^verbatim>\<open>
  SELECT filterset.* FROM filterset
    JOIN filterset_jobtype ON filterset.id = filterset_jobtype.filterset_id
    JOIN jobtype ON jobtype.id = filterset_jobtype.jobtype_id
    JOIN filterset_jobcategory ON filterset.id = filterset_jobcategory.filterset_id
    JOIN jobcategory ON jobcategory.id = filterset_jobcategory.jobcategory_id
  WHERE filterset.board_id = :board AND jobtype.name IN (:t) AND jobcategory.name IN (:c)
    AND NOT EXISTS (SELECT 1 FROM filterset_tag WHERE filterset.id = filterset_tag.filterset_id)
    AND NOT EXISTS (SELECT 1 FROM filterset_domain
                    WHERE filterset.id = filterset_domain.filterset_id)
    AND filterset.geonameids = '{}' AND filterset.equity IS false
    AND filterset.pay_cash IS NULL AND filterset.pay_currency IS NULL
    AND filterset.keywords = '' AND filterset.remote_location IS false
  GROUP BY filterset.id, filterset.id
  HAVING count(filterset_jobtype.filterset_id) = :len_t
     AND count(filterset_jobcategory.filterset_id) = :len_c
  \<close>
  The WHERE conditions apply to the joined rows, before the grouping, and both counts are
  taken over all joined rows of a group. The model keeps the joined rows that passed the
  conditions so far (joins are inner and conditions are conjoined, so their order does not
  matter) and defers grouping and HAVING to \<open>query_all\<close>.
\<close>

record query =
  q_rows :: "jrow list"
  q_group_by :: bool
  q_having :: "(kind \<times> nat) list"

definition base_query :: "database \<Rightarrow> nat \<Rightarrow> query" where
  "base_query db board =
     \<lparr> q_rows = map (\<lambda>f. \<lparr> jr_filterset = f, jr_joined = Map.empty \<rparr>)
                     (filter (\<lambda>f. row_board_id f = board) (filterset_table db)),
       q_group_by = False,
       q_having = [] \<rparr>"

definition query_filter :: "(filterset_row \<Rightarrow> bool) \<Rightarrow> query \<Rightarrow> query" where
  "query_filter p q = q\<lparr> q_rows := filter (\<lambda>r. p (jr_filterset r)) (q_rows q) \<rparr>"

text \<open>
  \<open>.join(<association table>).join(<entity class>)\<close>: two inner joins along the foreign
  keys.
\<close>

definition join_row :: "database \<Rightarrow> kind \<Rightarrow> jrow \<Rightarrow> jrow list" where
  "join_row db k r =
     concat (map (\<lambda>a. map (\<lambda>e. r\<lparr> jr_joined := (jr_joined r)(k \<mapsto> (a, e)) \<rparr>)
                           (filter (\<lambda>e. ent_id e = snd a) (entity_table db k)))
                 (filter (\<lambda>a. fst a = row_id (jr_filterset r)) (assoc_table db k)))"

definition join_m2m :: "database \<Rightarrow> kind \<Rightarrow> query \<Rightarrow> query" where
  "join_m2m db k q = q\<lparr> q_rows := concat (map (join_row db k) (q_rows q)) \<rparr>"

text \<open>\<open>.filter(<entity class>.name.in_(names))\<close>\<close>

definition name_in :: "kind \<Rightarrow> string list \<Rightarrow> jrow \<Rightarrow> bool" where
  "name_in k names r =
     (case jr_joined r k of None \<Rightarrow> False | Some ae \<Rightarrow> ent_name (snd ae) \<in> set names)"

definition filter_name_in :: "kind \<Rightarrow> string list \<Rightarrow> query \<Rightarrow> query" where
  "filter_name_in k names q = q\<lparr> q_rows := filter (name_in k names) (q_rows q) \<rparr>"

text \<open>\<open>.group_by(Filterset.id).having(count(<association table>.filterset_id) == n)\<close>\<close>

definition group_by_having :: "kind \<Rightarrow> nat \<Rightarrow> query \<Rightarrow> query" where
  "group_by_having k n q = q\<lparr> q_group_by := True, q_having := q_having q @ [(k, n)] \<rparr>"

text \<open>
  \<open>.filter(~exists(select([1]).where(Filterset.id == <association table>.filterset_id)))\<close>
\<close>

definition not_exists_assoc :: "database \<Rightarrow> kind \<Rightarrow> query \<Rightarrow> query" where
  "not_exists_assoc db k q =
     query_filter (\<lambda>f. filter (\<lambda>a. fst a = row_id f) (assoc_table db k) = []) q"

text \<open>One of the four \<open>if filters.get(key): ... else: ...\<close> blocks.\<close>

definition m2m_criterion :: "database \<Rightarrow> kind \<Rightarrow> string list \<Rightarrow> query \<Rightarrow> query" where
  "m2m_criterion db k names q =
     (if names \<noteq> []
      then group_by_having k (length names) (filter_name_in k names (join_m2m db k q))
      else not_exists_assoc db k q)"

text \<open>
  Running the query. \<open>count(column)\<close> counts the rows of a group in which the column is
  not null. With GROUP BY, one \<open>filterset\<close> row is returned for every group that passes
  all HAVING conditions.
\<close>

definition count_col :: "kind \<Rightarrow> jrow list \<Rightarrow> nat" where
  "count_col k g = length (filter (\<lambda>r. jr_joined r k \<noteq> None) g)"

definition having_ok :: "(kind \<times> nat) list \<Rightarrow> jrow list \<Rightarrow> bool" where
  "having_ok hs g = (filter (\<lambda>h. count_col (fst h) g \<noteq> snd h) hs = [])"

definition groups :: "jrow list \<Rightarrow> jrow list list" where
  "groups rows =
     map (\<lambda>i. filter (\<lambda>r. row_id (jr_filterset r) = i) rows)
         (remdups (map (\<lambda>r. row_id (jr_filterset r)) rows))"

fun group_row :: "jrow list \<Rightarrow> filterset_row list" where
  "group_row [] = []"
| "group_row (r # rs) = [jr_filterset r]"

definition query_all :: "query \<Rightarrow> filterset_row list" where
  "query_all q =
     (if q_group_by q
      then concat (map group_row (filter (having_ok (q_having q)) (groups (q_rows q))))
      else map jr_filterset (q_rows q))"

datatype error = MultipleResultsFound | ValueError string

definition one_or_none :: "query \<Rightarrow> error + filterset_row option" where
  "one_or_none q =
     (case query_all q of
        [] \<Rightarrow> Inr None
      | [r] \<Rightarrow> Inr (Some r)
      | _ \<Rightarrow> Inl MultipleResultsFound)"

section \<open>\<open>Filterset.from_filters\<close>\<close>

definition from_filters :: "database \<Rightarrow> nat \<Rightarrow> filters \<Rightarrow> error + filterset_row option" where
  "from_filters db board fl =
     (let basequery = base_query db board;
          basequery = m2m_criterion db JobTypeK (get_list (f_t fl)) basequery;
          basequery = m2m_criterion db JobCategoryK (get_list (f_c fl)) basequery;
          basequery = m2m_criterion db TagK (get_list (f_k fl)) basequery;
          basequery = m2m_criterion db DomainK (get_list (f_d fl)) basequery;
          basequery =
            (if get_list (f_l fl) \<noteq> []
             then query_filter (\<lambda>f. row_geonameids f = sort (get_list (f_l fl))) basequery
             else query_filter (\<lambda>f. row_geonameids f = []) basequery);
          basequery =
            (if truthy_bool (f_equity fl)
             then query_filter (\<lambda>f. row_equity f = True) basequery
             else query_filter (\<lambda>f. row_equity f = False) basequery);
          basequery =
            (if truthy_int (f_pay fl) \<and> get_list (f_currency fl) \<noteq> []
             then query_filter (\<lambda>f. row_pay_cash f = f_pay fl \<and>
                                      bpchar_eq (row_pay_currency f) (get_list (f_currency fl)))
                               basequery
             else query_filter (\<lambda>f. row_pay_cash f = None \<and>
                                      row_pay_currency f = None) basequery);
          basequery =
            (if get_list (f_q fl) \<noteq> []
             then query_filter (\<lambda>f. row_keywords f = get_list (f_q fl)) basequery
             else query_filter (\<lambda>f. row_keywords f = []) basequery);
          basequery =
            (if truthy_bool (f_anywhere fl)
             then query_filter (\<lambda>f. row_remote_location f = True) basequery
             else query_filter (\<lambda>f. row_remote_location f = False) basequery)
      in one_or_none basequery)"

section \<open>The \<open>before_insert\<close> / \<open>before_update\<close> listener\<close>

text \<open>
  The listener sorts \<open>target.geonameids\<close> in place (\<open>format_geonameids\<close> is its
  first statement) and raises when the lookup finds a row with another id. The result is
  the raised error, or the target as the flush goes on to write it. Python's \<open>sorted\<close>
  on integers is \<open>sort\<close>.
\<close>

definition format_geonameids :: "Filterset \<Rightarrow> Filterset" where
  "format_geonameids target =
     (if fs_geonameids target \<noteq> []
      then target\<lparr> fs_geonameids := sort (fs_geonameids target) \<rparr>
      else target)"

definition format_and_validate :: "database \<Rightarrow> Filterset \<Rightarrow> error + Filterset" where
  "format_and_validate db target =
     (let target = format_geonameids target
      in case from_filters db (fs_board target) (to_filters target) of
           Inl e \<Rightarrow> Inl e
         | Inr None \<Rightarrow> Inr target
         | Inr (Some filterset) \<Rightarrow>
             (if Some (row_id filterset) \<noteq> fs_id target
              then Inl (ValueError ''There already exists a filter set with this filter criteria'')
              else Inr target))"

section \<open>The migration \<open>80a7e6c31df_index_jobpost_datetime\<close>\<close>

text \<open>
  The part of a database schema the migration touches: the columns of each table and the
  indexes, keyed by index name. \<open>op.create_index\<close> and \<open>op.drop_index\<close> emit
  CREATE INDEX and DROP INDEX; the database rejects an index on a missing table or column,
  a second index of the same name, and the drop of an index that does not exist.
  \<open>op.f\<close> marks a name as final and returns it unchanged.
\<close>

record index_def =
  ix_table :: string
  ix_columns :: "string list"
  ix_unique :: bool

record schema =
  tables :: "string \<rightharpoonup> string list"
  indexes :: "string \<rightharpoonup> index_def"

datatype ddl_error =
  UndefinedTable string | UndefinedColumn string | DuplicateIndex string | UndefinedIndex string

definition create_index :: "string \<Rightarrow> string \<Rightarrow> string list \<Rightarrow> bool \<Rightarrow> schema \<Rightarrow> ddl_error + schema" where
  "create_index name table_name columns unique s =
     (case tables s table_name of
        None \<Rightarrow> Inl (UndefinedTable table_name)
      | Some cols \<Rightarrow>
          (case filter (\<lambda>c. c \<notin> set cols) columns of
             c # _ \<Rightarrow> Inl (UndefinedColumn c)
           | [] \<Rightarrow>
               (case indexes s name of
                  Some _ \<Rightarrow> Inl (DuplicateIndex name)
                | None \<Rightarrow>
                    Inr (s\<lparr> indexes := (indexes s)(name \<mapsto>
                      \<lparr> ix_table = table_name, ix_columns = columns, ix_unique = unique \<rparr>) \<rparr>))))"

definition drop_index :: "string \<Rightarrow> string \<Rightarrow> schema \<Rightarrow> ddl_error + schema" where
  "drop_index name table_name s =
     (case indexes s name of
        None \<Rightarrow> Inl (UndefinedIndex name)
      | Some _ \<Rightarrow> Inr (s\<lparr> indexes := (indexes s)(name := None) \<rparr>))"

definition upgrade :: "schema \<Rightarrow> ddl_error + schema" where
  "upgrade s = create_index ''ix_jobpost_datetime'' ''jobpost'' [''datetime''] False s"

definition downgrade :: "schema \<Rightarrow> ddl_error + schema" where
  "downgrade s = drop_index ''ix_jobpost_datetime'' ''jobpost'' s"

section \<open>The composed query, read row by row\<close>

text \<open>
  The definitions of this section are not in the source: they state what the query that
  \<open>from_filters\<close> composes means for a single \<open>filterset\<close> row, and the lemmas below
  prove that running the query agrees with them.

  \<open>m2m_row\<close> is the effect of one many-to-many block on one joined row, and
  \<open>crit_count\<close> the number of rows it leaves: with names supplied, one row for every
  related entity whose name is among them; with none supplied, the row itself when the
  filter set has no association of the kind.
\<close>

definition m2m_row :: "database \<Rightarrow> kind \<Rightarrow> string list \<Rightarrow> jrow \<Rightarrow> jrow list" where
  "m2m_row db k names r =
     (if names \<noteq> [] then filter (name_in k names) (join_row db k r)
      else if filter (\<lambda>a. fst a = row_id (jr_filterset r)) (assoc_table db k) = [] then [r]
      else [])"

definition crit_count :: "database \<Rightarrow> kind \<Rightarrow> string list \<Rightarrow> filterset_row \<Rightarrow> nat" where
  "crit_count db k names f =
     (if names \<noteq> [] then length (filter (\<lambda>e. ent_name e \<in> set names) (related db k (row_id f)))
      else if filter (\<lambda>a. fst a = row_id f) (assoc_table db k) = [] then 1
      else 0)"

text \<open>
  The five scalar WHERE conditions, the number of joined rows of a \<open>filterset\<close> row
  (the joins multiply), one HAVING test, and the composed predicate: the row belongs to the
  board, passes the scalar conditions, has at least one joined row, and the number of its
  joined rows equals the length of every supplied list.
\<close>

definition scalar_ok :: "filters \<Rightarrow> filterset_row \<Rightarrow> bool" where
  "scalar_ok fl f =
     ((if get_list (f_l fl) \<noteq> [] then row_geonameids f = sort (get_list (f_l fl))
       else row_geonameids f = []) \<and>
      (if truthy_bool (f_equity fl) then row_equity f = True else row_equity f = False) \<and>
      (if truthy_int (f_pay fl) \<and> get_list (f_currency fl) \<noteq> []
       then row_pay_cash f = f_pay fl \<and> bpchar_eq (row_pay_currency f) (get_list (f_currency fl))
       else row_pay_cash f = None \<and> row_pay_currency f = None) \<and>
      (if get_list (f_q fl) \<noteq> [] then row_keywords f = get_list (f_q fl)
       else row_keywords f = []) \<and>
      (if truthy_bool (f_anywhere fl) then row_remote_location f = True
       else row_remote_location f = False))"

definition joined_rows :: "database \<Rightarrow> filters \<Rightarrow> filterset_row \<Rightarrow> nat" where
  "joined_rows db fl f =
     crit_count db JobTypeK (get_list (f_t fl)) f *
     crit_count db JobCategoryK (get_list (f_c fl)) f *
     crit_count db TagK (get_list (f_k fl)) f *
     crit_count db DomainK (get_list (f_d fl)) f"

definition count_ok :: "string list \<Rightarrow> nat \<Rightarrow> bool" where
  "count_ok names n = (names = [] \<or> n = length names)"

definition matches :: "database \<Rightarrow> nat \<Rightarrow> filters \<Rightarrow> filterset_row \<Rightarrow> bool" where
  "matches db board fl f =
     (row_board_id f = board \<and> scalar_ok fl f \<and> 0 < joined_rows db fl f \<and>
      count_ok (get_list (f_t fl)) (joined_rows db fl f) \<and>
      count_ok (get_list (f_c fl)) (joined_rows db fl f) \<and>
      count_ok (get_list (f_k fl)) (joined_rows db fl f) \<and>
      count_ok (get_list (f_d fl)) (joined_rows db fl f))"

text \<open>
  The joined rows of one \<open>filterset\<close> row, the HAVING conditions that \<open>from_filters\<close>
  collects, the query it runs, and the list under each of the four keys.
\<close>

definition fibre :: "database \<Rightarrow> filters \<Rightarrow> filterset_row \<Rightarrow> jrow list" where
  "fibre db fl f =
     filter (\<lambda>r. scalar_ok fl (jr_filterset r))
       (concat (map (m2m_row db DomainK (get_list (f_d fl)))
         (concat (map (m2m_row db TagK (get_list (f_k fl)))
           (concat (map (m2m_row db JobCategoryK (get_list (f_c fl)))
             (m2m_row db JobTypeK (get_list (f_t fl))
                \<lparr> jr_filterset = f, jr_joined = Map.empty \<rparr>)))))))"

definition having_list :: "filters \<Rightarrow> (kind \<times> nat) list" where
  "having_list fl =
     (if get_list (f_t fl) \<noteq> [] then [(JobTypeK, length (get_list (f_t fl)))] else []) @
     (if get_list (f_c fl) \<noteq> [] then [(JobCategoryK, length (get_list (f_c fl)))] else []) @
     (if get_list (f_k fl) \<noteq> [] then [(TagK, length (get_list (f_k fl)))] else []) @
     (if get_list (f_d fl) \<noteq> [] then [(DomainK, length (get_list (f_d fl)))] else [])"

definition final_query :: "database \<Rightarrow> nat \<Rightarrow> filters \<Rightarrow> query" where
  "final_query db board fl =
     query_filter (scalar_ok fl)
       (m2m_criterion db DomainK (get_list (f_d fl))
         (m2m_criterion db TagK (get_list (f_k fl))
           (m2m_criterion db JobCategoryK (get_list (f_c fl))
             (m2m_criterion db JobTypeK (get_list (f_t fl)) (base_query db board)))))"

fun names_of :: "filters \<Rightarrow> kind \<Rightarrow> string list" where
  "names_of fl JobTypeK = get_list (f_t fl)"
| "names_of fl JobCategoryK = get_list (f_c fl)"
| "names_of fl TagK = get_list (f_k fl)"
| "names_of fl DomainK = get_list (f_d fl)"

text \<open>The filters dictionary with no key at all, and a row with no criterion set.\<close>

definition no_filters :: filters where
  "no_filters =
     \<lparr> f_t = None, f_c = None, f_k = None, f_d = None, f_l = None, f_currency = None,
       f_pay = None, f_equity = None, f_anywhere = None, f_q = None \<rparr>"

definition no_assoc :: "database \<Rightarrow> kind \<Rightarrow> filterset_row \<Rightarrow> bool" where
  "no_assoc db k f = (filter (\<lambda>a. fst a = row_id f) (assoc_table db k) = [])"

definition unfiltered :: "database \<Rightarrow> filterset_row \<Rightarrow> bool" where
  "unfiltered db f =
     (no_assoc db JobTypeK f \<and> no_assoc db JobCategoryK f \<and>
      no_assoc db TagK f \<and> no_assoc db DomainK f \<and>
      row_geonameids f = [] \<and> row_equity f = False \<and> row_remote_location f = False \<and>
      row_pay_cash f = None \<and> row_pay_currency f = None \<and> row_keywords f = [])"

section \<open>Example databases\<close>

definition jobtypes_ex :: "entity list" where
  "jobtypes_ex =
     [\<lparr> ent_id = 1, ent_name = ''fulltime'' \<rparr>, \<lparr> ent_id = 2, ent_name = ''intern'' \<rparr>]"

definition jobcategories_ex :: "entity list" where
  "jobcategories_ex =
     [\<lparr> ent_id = 1, ent_name = ''programming'' \<rparr>, \<lparr> ent_id = 2, ent_name = ''design'' \<rparr>]"

definition row_ex :: "nat \<Rightarrow> filterset_row" where
  "row_ex i =
     \<lparr> row_id = i, row_board_id = 1, row_geonameids = [], row_remote_location = False,
       row_pay_currency = None, row_pay_cash = None, row_equity = False, row_keywords = [] \<rparr>"

definition empty_db :: database where
  "empty_db =
     \<lparr> filterset_table = [],
       filterset_jobtype_table = [], jobtype_table = jobtypes_ex,
       filterset_jobcategory_table = [], jobcategory_table = jobcategories_ex,
       filterset_tag_table = [], tag_table = [],
       filterset_domain_table = [], domain_table = [] \<rparr>"

text \<open>One filter set with no criterion.\<close>

definition db_plain :: database where
  "db_plain = empty_db\<lparr> filterset_table := [row_ex 1] \<rparr>"

text \<open>One filter set with the job type fulltime.\<close>

definition db_single :: database where
  "db_single = db_plain\<lparr> filterset_jobtype_table := [(1, 1)] \<rparr>"

text \<open>One filter set with the job types fulltime and intern.\<close>

definition db_superset :: database where
  "db_superset = db_plain\<lparr> filterset_jobtype_table := [(1, 1), (1, 2)] \<rparr>"

text \<open>One filter set with the job types fulltime and intern and the category programming.\<close>

definition db_product :: database where
  "db_product = db_superset\<lparr> filterset_jobcategory_table := [(1, 1)] \<rparr>"

text \<open>One filter set with the job type fulltime and the categories programming and design.\<close>

definition db_dup :: database where
  "db_dup = db_single\<lparr> filterset_jobcategory_table := [(1, 1), (1, 2)] \<rparr>"

text \<open>Filter set 1 with the job types fulltime and intern, filter set 2 with fulltime.\<close>

definition db_two :: database where
  "db_two = empty_db\<lparr> filterset_table := [row_ex 1, row_ex 2],
                        filterset_jobtype_table := [(1, 1), (1, 2), (2, 1)] \<rparr>"







text \<open>
  Filter set 1 with the job types fulltime and intern and the categories programming and
  design, alone (\<open>db_first\<close>) and together with filter set 2, which has the same two job
  types and the category programming (\<open>db_both\<close>).
\<close>

definition db_first :: database where
  "db_first = db_plain\<lparr> filterset_jobtype_table := [(1, 1), (1, 2)],
                         filterset_jobcategory_table := [(1, 1), (1, 2)] \<rparr>"

definition db_both :: database where
  "db_both = empty_db\<lparr> filterset_table := [row_ex 1, row_ex 2],
                         filterset_jobtype_table := [(1, 1), (1, 2), (2, 1), (2, 2)],
                         filterset_jobcategory_table := [(1, 1), (1, 2), (2, 1)] \<rparr>"

text \<open>An unsaved filter set with the criteria of the one in \<open>db_product\<close>.\<close>

definition target_dup :: Filterset where
  "target_dup = (load db_product (row_ex 1))\<lparr> fs_id := None \<rparr>"

text \<open>An unsaved filter set with three locations, not in order.\<close>

definition target_unsorted :: Filterset where
  "target_unsorted =
     \<lparr> fs_id = None, fs_board = 1, fs_types = [], fs_categories = [], fs_tags = [],
       fs_domains = [], fs_geonameids = [1277333, 1264527, 1275339],
       fs_remote_location = False, fs_pay_currency = None, fs_pay_cash = None,
       fs_equity = False, fs_keywords = [] \<rparr>"

text \<open>A schema with the table \<open>jobpost\<close> and no index.\<close>

definition schema_ex :: schema where
  "schema_ex =
     \<lparr> tables = [''jobpost'' \<mapsto> [''id'', ''datetime'', ''headline'']],
       indexes = Map.empty \<rparr>"

section \<open>One many-to-many block acts row by row\<close>

lemma filter_as_concat: "filter P rs = concat (map (\<lambda>r. if P r then [r] else []) rs)"
  by (induction rs) simp_all

lemma q_rows_m2m:
  "q_rows (m2m_criterion db k names q) = concat (map (m2m_row db k names) (q_rows q))"
proof (cases "names = []")
  case True
  have "m2m_row db k [] =
        (\<lambda>r. if filter (\<lambda>a. fst a = row_id (jr_filterset r)) (assoc_table db k) = [] then [r] else [])"
    by (rule ext) (simp add: m2m_row_def)
  with True show ?thesis
    by (simp add: m2m_criterion_def not_exists_assoc_def query_filter_def filter_as_concat)
next
  case False
  then have "m2m_row db k names = filter (name_in k names) \<circ> join_row db k"
    by (intro ext) (simp add: m2m_row_def)
  with False show ?thesis
    by (simp add: m2m_criterion_def group_by_having_def filter_name_in_def join_m2m_def
        filter_concat)
qed

lemma m2m_row_filterset:
  "r' \<in> set (m2m_row db k names r) \<Longrightarrow> jr_filterset r' = jr_filterset r"
  by (auto simp: m2m_row_def join_row_def split: if_splits)

lemma m2m_row_joined:
  "r' \<in> set (m2m_row db k names r) \<Longrightarrow> jr_joined r k' \<noteq> None \<Longrightarrow> jr_joined r' k' \<noteq> None"
  by (auto simp: m2m_row_def join_row_def split: if_splits)

lemma m2m_row_joined_new:
  "r' \<in> set (m2m_row db k names r) \<Longrightarrow> names \<noteq> [] \<Longrightarrow> jr_joined r' k \<noteq> None"
  by (auto simp: m2m_row_def join_row_def split: if_splits)

lemma length_m2m_row:
  "length (m2m_row db k names r) = crit_count db k names (jr_filterset r)"
  by (simp add: m2m_row_def crit_count_def join_row_def related_def filter_concat
      length_concat filter_map o_def name_in_def)


lemma q_group_by_m2m:
  "q_group_by (m2m_criterion db k names q) = (names \<noteq> [] \<or> q_group_by q)"
  by (simp add: m2m_criterion_def group_by_having_def filter_name_in_def join_m2m_def
      not_exists_assoc_def query_filter_def)

lemma q_having_m2m:
  "q_having (m2m_criterion db k names q) =
   q_having q @ (if names \<noteq> [] then [(k, length names)] else [])"
  by (simp add: m2m_criterion_def group_by_having_def filter_name_in_def join_m2m_def
      not_exists_assoc_def query_filter_def)

lemma query_filter_if:
  "(if c then query_filter p q else query_filter p' q) =
   query_filter (\<lambda>f. if c then p f else p' f) q"
  by simp

lemma query_filter_twice:
  "query_filter p (query_filter p' q) = query_filter (\<lambda>f. p' f \<and> p f) q"
  by (simp add: query_filter_def conj_commute)

lemma from_filters_eq:
  "from_filters db board fl =
   one_or_none (query_filter (scalar_ok fl)
     (m2m_criterion db DomainK (get_list (f_d fl))
       (m2m_criterion db TagK (get_list (f_k fl))
         (m2m_criterion db JobCategoryK (get_list (f_c fl))
           (m2m_criterion db JobTypeK (get_list (f_t fl)) (base_query db board))))))"
  unfolding from_filters_def Let_def query_filter_if query_filter_twice scalar_ok_def
  by (simp add: conj_assoc)

lemma concat_map_concat_map:
  "concat (map g (concat (map E xs))) = concat (map (\<lambda>x. concat (map g (E x))) xs)"
  by (induction xs) simp_all

lemma q_rows_final:
  "q_rows (query_filter (scalar_ok fl)
     (m2m_criterion db DomainK (get_list (f_d fl))
       (m2m_criterion db TagK (get_list (f_k fl))
         (m2m_criterion db JobCategoryK (get_list (f_c fl))
           (m2m_criterion db JobTypeK (get_list (f_t fl)) (base_query db board)))))) =
   concat (map (fibre db fl) (filter (\<lambda>f. row_board_id f = board) (filterset_table db)))"
proof -
  let ?fs = "filter (\<lambda>f. row_board_id f = board) (filterset_table db)"
  let ?q1 = "m2m_criterion db JobTypeK (get_list (f_t fl)) (base_query db board)"
  let ?q2 = "m2m_criterion db JobCategoryK (get_list (f_c fl)) ?q1"
  let ?q3 = "m2m_criterion db TagK (get_list (f_k fl)) ?q2"
  let ?q4 = "m2m_criterion db DomainK (get_list (f_d fl)) ?q3"
  have single: "concat (map (\<lambda>x. [h x]) xs) = map h xs" for h :: "filterset_row \<Rightarrow> jrow" and xs
    by (induction xs) simp_all
  have r0: "q_rows (base_query db board) =
      concat (map (\<lambda>f. [\<lparr> jr_filterset = f, jr_joined = Map.empty \<rparr>]) ?fs)"
    unfolding base_query_def by (simp add: single)
  have r1: "q_rows ?q1 = concat (map (\<lambda>f. m2m_row db JobTypeK (get_list (f_t fl))
      \<lparr> jr_filterset = f, jr_joined = Map.empty \<rparr>) ?fs)"
    unfolding q_rows_m2m r0 concat_map_concat_map by simp
  have r2: "q_rows ?q2 = concat (map (\<lambda>f. concat (map (m2m_row db JobCategoryK (get_list (f_c fl)))
      (m2m_row db JobTypeK (get_list (f_t fl))
      \<lparr> jr_filterset = f, jr_joined = Map.empty \<rparr>))) ?fs)"
    unfolding q_rows_m2m [of db JobCategoryK] r1 concat_map_concat_map ..
  have r3: "q_rows ?q3 = concat (map (\<lambda>f. concat (map (m2m_row db TagK (get_list (f_k fl)))
      (concat (map (m2m_row db JobCategoryK (get_list (f_c fl)))
      (m2m_row db JobTypeK (get_list (f_t fl))
      \<lparr> jr_filterset = f, jr_joined = Map.empty \<rparr>))))) ?fs)"
    unfolding q_rows_m2m [of db TagK] r2 concat_map_concat_map ..
  have r4: "q_rows ?q4 = concat (map (\<lambda>f. concat (map (m2m_row db DomainK (get_list (f_d fl)))
      (concat (map (m2m_row db TagK (get_list (f_k fl)))
      (concat (map (m2m_row db JobCategoryK (get_list (f_c fl)))
      (m2m_row db JobTypeK (get_list (f_t fl))
      \<lparr> jr_filterset = f, jr_joined = Map.empty \<rparr>))))))) ?fs)"
    unfolding q_rows_m2m [of db DomainK] r3 concat_map_concat_map ..
  have "q_rows (query_filter (scalar_ok fl) ?q4) =
      filter (\<lambda>r. scalar_ok fl (jr_filterset r)) (q_rows ?q4)"
    by (simp add: query_filter_def)
  also have "\<dots> = concat (map (fibre db fl) ?fs)"
    unfolding r4 filter_concat map_map fibre_def o_def ..
  finally show ?thesis .
qed


lemma bind_filterset:
  assumes "\<forall>r\<in>set rows. jr_filterset r = f"
  shows "\<forall>r\<in>set (concat (map (m2m_row db k names) rows)). jr_filterset r = f"
  using assms by (auto dest: m2m_row_filterset)

lemma bind_length:
  assumes "\<forall>r\<in>set rows. jr_filterset r = f"
  shows "length (concat (map (m2m_row db k names) rows)) = length rows * crit_count db k names f"
  using assms by (induction rows) (simp_all add: length_m2m_row)

lemma bind_joined_old:
  assumes "\<forall>r\<in>set rows. jr_joined r k' \<noteq> None"
  shows "\<forall>r\<in>set (concat (map (m2m_row db k names) rows)). jr_joined r k' \<noteq> None"
proof
  fix r assume "r \<in> set (concat (map (m2m_row db k names) rows))"
  then obtain y where "y \<in> set rows" "r \<in> set (m2m_row db k names y)" by auto
  with assms show "jr_joined r k' \<noteq> None" by (blast dest: m2m_row_joined)
qed

lemma bind_joined_new:
  assumes "names \<noteq> []"
  shows "\<forall>r\<in>set (concat (map (m2m_row db k names) rows)). jr_joined r k \<noteq> None"
proof
  fix r assume "r \<in> set (concat (map (m2m_row db k names) rows))"
  then obtain y where "y \<in> set rows" "r \<in> set (m2m_row db k names y)" by auto
  with assms show "jr_joined r k \<noteq> None" by (blast dest: m2m_row_joined_new)
qed

lemma ball_filter: "\<forall>r\<in>set xs. P r \<Longrightarrow> \<forall>r\<in>set (filter Q xs). P r"
  by simp

lemma filter_const:
  "\<forall>r\<in>set xs. g r = f \<Longrightarrow> filter (\<lambda>r. P (g r)) xs = (if P f then xs else [])"
  by (induction xs) auto

lemma fibre_facts:
  fixes db fl f
  defines "t \<equiv> get_list (f_t fl)" and "c \<equiv> get_list (f_c fl)"
    and "k \<equiv> get_list (f_k fl)" and "d \<equiv> get_list (f_d fl)"
  shows fibre_filterset: "\<forall>r\<in>set (fibre db fl f). jr_filterset r = f"
    and fibre_length: "length (fibre db fl f) = (if scalar_ok fl f then joined_rows db fl f else 0)"
    and fibre_t: "t \<noteq> [] \<Longrightarrow> \<forall>r\<in>set (fibre db fl f). jr_joined r JobTypeK \<noteq> None"
    and fibre_c: "c \<noteq> [] \<Longrightarrow> \<forall>r\<in>set (fibre db fl f). jr_joined r JobCategoryK \<noteq> None"
    and fibre_k: "k \<noteq> [] \<Longrightarrow> \<forall>r\<in>set (fibre db fl f). jr_joined r TagK \<noteq> None"
    and fibre_d: "d \<noteq> [] \<Longrightarrow> \<forall>r\<in>set (fibre db fl f). jr_joined r DomainK \<noteq> None"
proof -
  let ?b = "\<lparr> jr_filterset = f, jr_joined = Map.empty \<rparr>"
  let ?r1 = "concat (map (m2m_row db JobTypeK t) [?b])"
  let ?r2 = "concat (map (m2m_row db JobCategoryK c) ?r1)"
  let ?r3 = "concat (map (m2m_row db TagK k) ?r2)"
  let ?r4 = "concat (map (m2m_row db DomainK d) ?r3)"
  have fib: "fibre db fl f = filter (\<lambda>r. scalar_ok fl (jr_filterset r)) ?r4"
    by (simp add: fibre_def t_def c_def k_def d_def)
  have f0: "\<forall>r\<in>set [?b]. jr_filterset r = f" by simp
  have f1: "\<forall>r\<in>set ?r1. jr_filterset r = f" by (rule bind_filterset [OF f0])
  have f2: "\<forall>r\<in>set ?r2. jr_filterset r = f" by (rule bind_filterset [OF f1])
  have f3: "\<forall>r\<in>set ?r3. jr_filterset r = f" by (rule bind_filterset [OF f2])
  have f4: "\<forall>r\<in>set ?r4. jr_filterset r = f" by (rule bind_filterset [OF f3])
  show "\<forall>r\<in>set (fibre db fl f). jr_filterset r = f"
    unfolding fib using f4 by (rule ball_filter)
  have l1: "length ?r1 = crit_count db JobTypeK t f"
    using bind_length [OF f0, of db JobTypeK t] by simp
  have l2: "length ?r2 = crit_count db JobTypeK t f * crit_count db JobCategoryK c f"
    using bind_length [OF f1, of db JobCategoryK c] l1 by simp
  have l3: "length ?r3 = crit_count db JobTypeK t f * crit_count db JobCategoryK c f *
      crit_count db TagK k f"
    using bind_length [OF f2, of db TagK k] l2 by simp
  have l4: "length ?r4 = joined_rows db fl f"
    using bind_length [OF f3, of db DomainK d] l3
    by (simp add: joined_rows_def t_def c_def k_def d_def)
  have "filter (\<lambda>r. scalar_ok fl (jr_filterset r)) ?r4 = (if scalar_ok fl f then ?r4 else [])"
    using f4 by (rule filter_const)
  then show "length (fibre db fl f) = (if scalar_ok fl f then joined_rows db fl f else 0)"
    unfolding fib using l4 by simp
  show "\<forall>r\<in>set (fibre db fl f). jr_joined r JobTypeK \<noteq> None" if "t \<noteq> []"
  proof -
    have "\<forall>r\<in>set ?r1. jr_joined r JobTypeK \<noteq> None" by (rule bind_joined_new [OF that])
    then have "\<forall>r\<in>set ?r2. jr_joined r JobTypeK \<noteq> None" by (rule bind_joined_old)
    then have "\<forall>r\<in>set ?r3. jr_joined r JobTypeK \<noteq> None" by (rule bind_joined_old)
    then have "\<forall>r\<in>set ?r4. jr_joined r JobTypeK \<noteq> None" by (rule bind_joined_old)
    then show ?thesis unfolding fib by (rule ball_filter)
  qed
  show "\<forall>r\<in>set (fibre db fl f). jr_joined r JobCategoryK \<noteq> None" if "c \<noteq> []"
  proof -
    have "\<forall>r\<in>set ?r2. jr_joined r JobCategoryK \<noteq> None" by (rule bind_joined_new [OF that])
    then have "\<forall>r\<in>set ?r3. jr_joined r JobCategoryK \<noteq> None" by (rule bind_joined_old)
    then have "\<forall>r\<in>set ?r4. jr_joined r JobCategoryK \<noteq> None" by (rule bind_joined_old)
    then show ?thesis unfolding fib by (rule ball_filter)
  qed
  show "\<forall>r\<in>set (fibre db fl f). jr_joined r TagK \<noteq> None" if "k \<noteq> []"
  proof -
    have "\<forall>r\<in>set ?r3. jr_joined r TagK \<noteq> None" by (rule bind_joined_new [OF that])
    then have "\<forall>r\<in>set ?r4. jr_joined r TagK \<noteq> None" by (rule bind_joined_old)
    then show ?thesis unfolding fib by (rule ball_filter)
  qed
  show "\<forall>r\<in>set (fibre db fl f). jr_joined r DomainK \<noteq> None" if "d \<noteq> []"
  proof -
    have "\<forall>r\<in>set ?r4. jr_joined r DomainK \<noteq> None" by (rule bind_joined_new [OF that])
    then show ?thesis unfolding fib by (rule ball_filter)
  qed
qed

section \<open>Grouping by \<open>Filterset.id\<close>\<close>

lemma remdups_const_append:
  assumes "\<forall>x\<in>set xs. x = i" "i \<notin> set ys"
  shows "remdups (xs @ ys) = (if xs = [] then [] else [i]) @ remdups ys"
  using assms
proof (induction xs)
  case Nil
  then show ?case by simp
next
  case (Cons x xs)
  from Cons.prems have x: "x = i" by simp
  from Cons.prems have "\<forall>x\<in>set xs. x = i" by simp
  from Cons.IH [OF this Cons.prems(2)]
  have ih: "remdups (xs @ ys) = (if xs = [] then [] else [i]) @ remdups ys" .
  show ?case
  proof (cases "xs = []")
    case True
    with Cons.prems(2) x show ?thesis by simp
  next
    case False
    then obtain y where "y \<in> set xs" by (cases xs) auto
    with \<open>\<forall>x\<in>set xs. x = i\<close> have "i \<in> set xs" by auto
    then have "remdups (x # xs @ ys) = remdups (xs @ ys)" using x by simp
    with ih False show ?thesis by simp
  qed
qed

lemma groups_append:
  assumes g: "\<forall>r\<in>set g. row_id (jr_filterset r) = i"
    and rows: "\<forall>r\<in>set rows. row_id (jr_filterset r) \<noteq> i"
  shows "groups (g @ rows) = (if g = [] then [] else [g]) @ groups rows"
proof -
  let ?id = "\<lambda>r. row_id (jr_filterset r)"
  have ids: "remdups (map ?id (g @ rows)) =
      (if g = [] then [] else [i]) @ remdups (map ?id rows)"
  proof -
    have "\<forall>x\<in>set (map ?id g). x = i" using g by simp
    moreover have "i \<notin> set (map ?id rows)" using rows by auto
    ultimately have "remdups (map ?id g @ map ?id rows) =
        (if map ?id g = [] then [] else [i]) @ remdups (map ?id rows)"
      by (rule remdups_const_append)
    then show ?thesis by simp
  qed
  have own: "filter (\<lambda>r. ?id r = i) (g @ rows) = g"
    using g rows by (simp add: filter_id_conv filter_empty_conv)
  have other: "filter (\<lambda>r. ?id r = j) (g @ rows) = filter (\<lambda>r. ?id r = j) rows"
    if "j \<in> set (remdups (map ?id rows))" for j
  proof -
    from that rows have "j \<noteq> i" by auto
    with g show ?thesis by (simp add: filter_empty_conv)
  qed
  have rest: "map (\<lambda>j. filter (\<lambda>r. ?id r = j) (g @ rows)) (remdups (map ?id rows)) =
      map (\<lambda>j. filter (\<lambda>r. ?id r = j) rows) (remdups (map ?id rows))"
    by (rule map_cong [OF refl]) (rule other)
  show ?thesis
  proof (cases "g = []")
    case True
    then show ?thesis by simp
  next
    case False
    have "groups (g @ rows) =
        map (\<lambda>j. filter (\<lambda>r. ?id r = j) (g @ rows)) ([i] @ remdups (map ?id rows))"
      unfolding groups_def ids using False by simp
    also have "\<dots> = [g] @ map (\<lambda>j. filter (\<lambda>r. ?id r = j) rows) (remdups (map ?id rows))"
      unfolding map_append rest using own by simp
    finally show ?thesis using False by (simp add: groups_def)
  qed
qed

lemma group_result:
  assumes "distinct (map row_id fs)"
    and "\<forall>f\<in>set fs. \<forall>r\<in>set (R f). jr_filterset r = f"
  shows "concat (map group_row (filter P (groups (concat (map R fs))))) =
         filter (\<lambda>f. R f \<noteq> [] \<and> P (R f)) fs"
  using assms
proof (induction fs)
  case Nil
  then show ?case by (simp add: groups_def)
next
  case (Cons f fs)
  have own: "\<forall>r\<in>set (R f). row_id (jr_filterset r) = row_id f"
    using Cons.prems(2) by simp
  have rest: "\<forall>r\<in>set (concat (map R fs)). row_id (jr_filterset r) \<noteq> row_id f"
  proof
    fix r assume "r \<in> set (concat (map R fs))"
    then obtain f' where f': "f' \<in> set fs" "r \<in> set (R f')" by auto
    with Cons.prems(2) have "jr_filterset r = f'" by simp
    moreover have "row_id f' \<noteq> row_id f"
    proof -
      from Cons.prems(1) have "row_id f \<notin> set (map row_id fs)" by simp
      moreover from f' have "row_id f' \<in> set (map row_id fs)" by simp
      ultimately show ?thesis by metis
    qed
    ultimately show "row_id (jr_filterset r) \<noteq> row_id f" by simp
  qed
  have split: "groups (concat (map R (f # fs))) =
      (if R f = [] then [] else [R f]) @ groups (concat (map R fs))"
    using groups_append [OF own rest] by simp
  have hd: "group_row (R f) = [f]" if "R f \<noteq> []"
  proof -
    from that obtain r rs where rrs: "R f = r # rs" by (cases "R f") auto
    with Cons.prems(2) have "jr_filterset r = f" by simp
    with rrs show ?thesis by simp
  qed
  have ih: "concat (map group_row (filter P (groups (concat (map R fs))))) =
      filter (\<lambda>f. R f \<noteq> [] \<and> P (R f)) fs"
    using Cons.IH Cons.prems by simp
  show ?case
  proof (cases "R f = []")
    case True
    with split ih show ?thesis by simp
  next
    case False
    with split ih hd [OF False] show ?thesis by simp
  qed
qed

lemma nogroup_result:
  assumes "\<forall>f\<in>set fs. \<forall>r\<in>set (R f). jr_filterset r = f"
    and "\<forall>f\<in>set fs. length (R f) \<le> 1"
  shows "map jr_filterset (concat (map R fs)) = filter (\<lambda>f. R f \<noteq> []) fs"
  using assms
proof (induction fs)
  case Nil
  then show ?case by simp
next
  case (Cons f fs)
  have "map jr_filterset (R f) = (if R f \<noteq> [] then [f] else [])"
  proof (cases "R f")
    case Nil
    then show ?thesis by simp
  next
    case (Cons r rs)
    with Cons.prems(1) Cons.prems(2) show ?thesis by auto
  qed
  with Cons show ?case by simp
qed

section \<open>Running the query agrees with the row-level predicate\<close>

lemma count_col_all:
  assumes "\<forall>r\<in>set g. jr_joined r k \<noteq> None"
  shows "count_col k g = length g"
proof -
  from assms have "filter (\<lambda>r. jr_joined r k \<noteq> None) g = g"
    by (simp only: filter_id_conv)
  then show ?thesis by (simp only: count_col_def)
qed

lemma having_ok_Nil: "having_ok [] g"
  by (simp add: having_ok_def)

lemma having_ok_append: "having_ok (hs @ hs') g = (having_ok hs g \<and> having_ok hs' g)"
  by (simp add: having_ok_def)

lemma having_ok_single: "having_ok [(k, n)] g = (count_col k g = n)"
  by (simp add: having_ok_def)

lemma having_fibre:
  "having_ok (having_list fl) (fibre db fl f) =
   (count_ok (get_list (f_t fl)) (length (fibre db fl f)) \<and>
    count_ok (get_list (f_c fl)) (length (fibre db fl f)) \<and>
    count_ok (get_list (f_k fl)) (length (fibre db fl f)) \<and>
    count_ok (get_list (f_d fl)) (length (fibre db fl f)))"
proof -
  have t: "having_ok (if get_list (f_t fl) \<noteq> [] then [(JobTypeK, length (get_list (f_t fl)))] else [])
      (fibre db fl f) = count_ok (get_list (f_t fl)) (length (fibre db fl f))"
    using count_col_all [OF fibre_t [of fl db f]]
    by (simp add: having_ok_Nil having_ok_single count_ok_def)
  have c: "having_ok (if get_list (f_c fl) \<noteq> [] then [(JobCategoryK, length (get_list (f_c fl)))] else [])
      (fibre db fl f) = count_ok (get_list (f_c fl)) (length (fibre db fl f))"
    using count_col_all [OF fibre_c [of fl db f]]
    by (simp add: having_ok_Nil having_ok_single count_ok_def)
  have k: "having_ok (if get_list (f_k fl) \<noteq> [] then [(TagK, length (get_list (f_k fl)))] else [])
      (fibre db fl f) = count_ok (get_list (f_k fl)) (length (fibre db fl f))"
    using count_col_all [OF fibre_k [of fl db f]]
    by (simp add: having_ok_Nil having_ok_single count_ok_def)
  have d: "having_ok (if get_list (f_d fl) \<noteq> [] then [(DomainK, length (get_list (f_d fl)))] else [])
      (fibre db fl f) = count_ok (get_list (f_d fl)) (length (fibre db fl f))"
    using count_col_all [OF fibre_d [of fl db f]]
    by (simp add: having_ok_Nil having_ok_single count_ok_def)
  show ?thesis
    unfolding having_list_def having_ok_append t c k d ..
qed

lemma fibre_matches:
  "(row_board_id f = board \<and> fibre db fl f \<noteq> [] \<and> having_ok (having_list fl) (fibre db fl f)) =
   matches db board fl f"
proof (cases "scalar_ok fl f")
  case True
  then have "length (fibre db fl f) = joined_rows db fl f"
    by (simp add: fibre_length)
  moreover from this have "(fibre db fl f \<noteq> []) = (0 < joined_rows db fl f)"
    by (metis length_greater_0_conv)
  ultimately show ?thesis
    using True by (simp add: having_fibre matches_def)
next
  case False
  then have "length (fibre db fl f) = 0" by (simp add: fibre_length)
  then have "fibre db fl f = []" by simp
  with False show ?thesis by (simp add: matches_def)
qed

lemma final_group_by:
  "q_group_by (final_query db board fl) =
   (get_list (f_t fl) \<noteq> [] \<or> get_list (f_c fl) \<noteq> [] \<or>
    get_list (f_k fl) \<noteq> [] \<or> get_list (f_d fl) \<noteq> [])"
  by (auto simp add: final_query_def query_filter_def q_group_by_m2m base_query_def)

lemma final_having: "q_having (final_query db board fl) = having_list fl"
  by (simp add: final_query_def query_filter_def q_having_m2m base_query_def having_list_def)

lemma final_rows:
  "q_rows (final_query db board fl) =
   concat (map (fibre db fl) (filter (\<lambda>f. row_board_id f = board) (filterset_table db)))"
  unfolding final_query_def by (rule q_rows_final)

lemma crit_count_le1: "crit_count db k [] f \<le> 1"
  by (simp add: crit_count_def)

lemma fibre_select:
  "filter (\<lambda>f. fibre db fl f \<noteq> [] \<and> having_ok (having_list fl) (fibre db fl f))
     (filter (\<lambda>f. row_board_id f = board) (filterset_table db)) =
   filter (matches db board fl) (filterset_table db)"
  unfolding filter_filter
  by (rule filter_cong [OF refl]) (use fibre_matches [of _ board db fl] in blast)

lemma query_all_ungrouped:
  assumes "\<not> q_group_by (final_query db board fl)"
  shows "query_all (final_query db board fl) = filter (matches db board fl) (filterset_table db)"
proof -
  let ?fs = "filter (\<lambda>f. row_board_id f = board) (filterset_table db)"
  let ?R = "fibre db fl"
  have fs: "\<forall>f\<in>set ?fs. \<forall>r\<in>set (?R f). jr_filterset r = f"
    using fibre_filterset by blast
  from assms have empty: "get_list (f_t fl) = []" "get_list (f_c fl) = []"
    "get_list (f_k fl) = []" "get_list (f_d fl) = []"
    by (simp_all add: final_group_by)
  have hl: "having_list fl = []"
    by (simp add: having_list_def empty)
  have "joined_rows db fl f \<le> 1" for f
  proof -
    have "crit_count db JobTypeK [] f * crit_count db JobCategoryK [] f *
        crit_count db TagK [] f * crit_count db DomainK [] f \<le> 1 * 1 * 1 * 1"
      by (intro mult_le_mono crit_count_le1)
    then show ?thesis by (simp add: joined_rows_def empty)
  qed
  then have le: "\<forall>f\<in>set ?fs. length (?R f) \<le> 1"
    by (simp add: fibre_length)
  from assms have "query_all (final_query db board fl) = map jr_filterset (concat (map ?R ?fs))"
    by (simp add: query_all_def final_rows)
  also have "\<dots> = filter (\<lambda>f. ?R f \<noteq> []) ?fs"
    by (rule nogroup_result [OF fs le])
  also have "\<dots> = filter (\<lambda>f. ?R f \<noteq> [] \<and> having_ok (having_list fl) (?R f)) ?fs"
    by (simp add: hl having_ok_Nil)
  finally show ?thesis using fibre_select by simp
qed

lemma query_all_final:
  assumes pk: "distinct (map row_id (filterset_table db))"
  shows "query_all (final_query db board fl) = filter (matches db board fl) (filterset_table db)"
proof (cases "q_group_by (final_query db board fl)")
  case True
  let ?fs = "filter (\<lambda>f. row_board_id f = board) (filterset_table db)"
  let ?R = "fibre db fl"
  have dist: "distinct (map row_id ?fs)"
    using pk by (rule distinct_map_filter)
  have fs: "\<forall>f\<in>set ?fs. \<forall>r\<in>set (?R f). jr_filterset r = f"
    using fibre_filterset by blast
  from True have "query_all (final_query db board fl) =
      concat (map group_row (filter (having_ok (having_list fl)) (groups (concat (map ?R ?fs)))))"
    by (simp add: query_all_def final_having final_rows)
  also have "\<dots> = filter (\<lambda>f. ?R f \<noteq> [] \<and> having_ok (having_list fl) (?R f)) ?fs"
    by (rule group_result [OF dist fs])
  finally show ?thesis using fibre_select by simp
next
  case False
  then show ?thesis by (rule query_all_ungrouped)
qed

lemma from_filters_matches:
  assumes "distinct (map row_id (filterset_table db))"
  shows "from_filters db board fl =
     (case filter (matches db board fl) (filterset_table db) of
        [] \<Rightarrow> Inr None
      | [r] \<Rightarrow> Inr (Some r)
      | _ \<Rightarrow> Inl MultipleResultsFound)"
  unfolding from_filters_eq final_query_def [symmetric] one_or_none_def
    query_all_final [OF assms] ..

section \<open>Rows of the result, and lists with a repeated name\<close>

lemma group_row_subset: "f \<in> set (group_row g) \<Longrightarrow> f \<in> jr_filterset ` set g"
  by (cases g) simp_all

lemma groups_subset: "g \<in> set (groups rows) \<Longrightarrow> set g \<subseteq> set rows"
  by (auto simp: groups_def)

lemma query_all_rows:
  assumes "f \<in> set (query_all q)"
  shows "f \<in> jr_filterset ` set (q_rows q)"
proof (cases "q_group_by q")
  case True
  with assms obtain g where "g \<in> set (groups (q_rows q))" "f \<in> set (group_row g)"
    by (auto simp: query_all_def)
  then show ?thesis
    using group_row_subset groups_subset by blast
next
  case False
  with assms show ?thesis by (simp add: query_all_def)
qed

lemma one_or_none_Some:
  assumes "one_or_none q = Inr (Some f)"
  shows "f \<in> set (query_all q)"
proof (cases "query_all q")
  case Nil
  with assms show ?thesis by (simp add: one_or_none_def)
next
  case (Cons r rs)
  with assms show ?thesis by (cases rs) (simp_all add: one_or_none_def)
qed


lemma names_distinct_related:
  assumes "distinct (map snd as)" and "distinct (map ent_name ents)"
  shows "distinct (map ent_name (concat (map (\<lambda>a. filter (\<lambda>e. ent_id e = snd a) ents) as)))"
  using assms(1)
proof (induction as)
  case Nil
  then show ?case by simp
next
  case (Cons a as)
  have inj: "inj_on ent_name (set ents)"
    using assms(2) by (simp add: distinct_map)
  have own: "distinct (map ent_name (filter (\<lambda>e. ent_id e = snd a) ents))"
    using assms(2) by (rule distinct_map_filter)
  have disj: "ent_name e \<noteq> ent_name e'"
    if "e \<in> set ents" "ent_id e = snd a" "a' \<in> set as" "e' \<in> set ents" "ent_id e' = snd a'"
    for e e' a'
  proof
    assume "ent_name e = ent_name e'"
    with inj that have "e = e'" by (simp add: inj_on_def)
    with that have "snd a = snd a'" by simp
    with that(3) Cons.prems show False by force
  qed
  from Cons have ih: "distinct (map ent_name (concat (map (\<lambda>a. filter (\<lambda>e. ent_id e = snd a) ents) as)))"
    by simp
  show ?case
    using own ih disj by (auto simp: distinct_map)
qed

lemma assoc_snd_distinct:
  assumes "distinct (as :: assoc list)"
  shows "distinct (map snd (filter (\<lambda>a. fst a = i) as))"
proof -
  have "inj_on snd (set (filter (\<lambda>a. fst a = i) as))"
    by (auto simp: inj_on_def prod_eq_iff)
  with assms show ?thesis by (simp add: distinct_map)
qed

lemma crit_count_duplicates:
  assumes "distinct (assoc_table db k)" and "distinct (map ent_name (entity_table db k))"
    and "\<not> distinct names"
  shows "crit_count db k names f < length names"
proof -
  let ?L = "filter (\<lambda>e. ent_name e \<in> set names) (related db k (row_id f))"
  have "distinct (map ent_name (related db k (row_id f)))"
    unfolding related_def
    using assoc_snd_distinct [OF assms(1)] assms(2) by (rule names_distinct_related)
  then have "distinct (map ent_name ?L)"
    by (rule distinct_map_filter)
  then have "length ?L = card (set (map ent_name ?L))"
    by (metis distinct_card length_map)
  also have "\<dots> \<le> card (set names)"
    by (rule card_mono) auto
  also have "\<dots> < length names"
    using assms(3) by (metis card_distinct card_length le_neq_implies_less)
  finally have "length ?L < length names" .
  moreover from assms(3) have "names \<noteq> []" by auto
  ultimately show ?thesis by (simp add: crit_count_def)
qed

lemma joined_rows_names_of:
  "joined_rows db fl f =
   crit_count db JobTypeK (names_of fl JobTypeK) f *
   crit_count db JobCategoryK (names_of fl JobCategoryK) f *
   crit_count db TagK (names_of fl TagK) f *
   crit_count db DomainK (names_of fl DomainK) f"
  by (simp add: joined_rows_def)

lemma joined_rows_le:
  assumes "\<forall>k'. k' \<noteq> k \<longrightarrow> names_of fl k' = []"
  shows "joined_rows db fl f \<le> crit_count db k (names_of fl k) f"
proof -
  have le: "crit_count db k' (names_of fl k') f \<le> 1" if "k' \<noteq> k" for k'
    using assms that crit_count_le1 [of db k' f] by simp
  show ?thesis
  proof (cases k)
    case JobTypeK
    then have "crit_count db JobTypeK (names_of fl JobTypeK) f *
        crit_count db JobCategoryK (names_of fl JobCategoryK) f *
        crit_count db TagK (names_of fl TagK) f *
        crit_count db DomainK (names_of fl DomainK) f \<le>
        crit_count db JobTypeK (names_of fl JobTypeK) f * 1 * 1 * 1"
      by (intro mult_le_mono le_refl le) simp_all
    with JobTypeK show ?thesis by (simp add: joined_rows_names_of)
  next
    case JobCategoryK
    then have "crit_count db JobTypeK (names_of fl JobTypeK) f *
        crit_count db JobCategoryK (names_of fl JobCategoryK) f *
        crit_count db TagK (names_of fl TagK) f *
        crit_count db DomainK (names_of fl DomainK) f \<le>
        1 * crit_count db JobCategoryK (names_of fl JobCategoryK) f * 1 * 1"
      by (intro mult_le_mono le_refl le) simp_all
    with JobCategoryK show ?thesis by (simp add: joined_rows_names_of)
  next
    case TagK
    then have "crit_count db JobTypeK (names_of fl JobTypeK) f *
        crit_count db JobCategoryK (names_of fl JobCategoryK) f *
        crit_count db TagK (names_of fl TagK) f *
        crit_count db DomainK (names_of fl DomainK) f \<le>
        1 * 1 * crit_count db TagK (names_of fl TagK) f * 1"
      by (intro mult_le_mono le_refl le) simp_all
    with TagK show ?thesis by (simp add: joined_rows_names_of)
  next
    case DomainK
    then have "crit_count db JobTypeK (names_of fl JobTypeK) f *
        crit_count db JobCategoryK (names_of fl JobCategoryK) f *
        crit_count db TagK (names_of fl TagK) f *
        crit_count db DomainK (names_of fl DomainK) f \<le>
        1 * 1 * 1 * crit_count db DomainK (names_of fl DomainK) f"
      by (intro mult_le_mono le_refl le) simp_all
    with DomainK show ?thesis by (simp add: joined_rows_names_of)
  qed
qed

lemma matches_count_ok:
  assumes "matches db board fl f"
  shows "count_ok (names_of fl k) (joined_rows db fl f)"
  using assms by (cases k) (simp_all add: matches_def)

lemma duplicates_no_match:
  assumes "distinct (assoc_table db k)" and "distinct (map ent_name (entity_table db k))"
    and "\<not> distinct (names_of fl k)" and "\<forall>k'. k' \<noteq> k \<longrightarrow> names_of fl k' = []"
  shows "\<not> matches db board fl f"
proof
  assume "matches db board fl f"
  then have "count_ok (names_of fl k) (joined_rows db fl f)" by (rule matches_count_ok)
  moreover from assms(3) have "names_of fl k \<noteq> []" by auto
  ultimately have "joined_rows db fl f = length (names_of fl k)" by (simp add: count_ok_def)
  moreover have "joined_rows db fl f < length (names_of fl k)"
    using joined_rows_le [OF assms(4)] crit_count_duplicates [OF assms(1,2,3)]
    by (rule le_less_trans)
  ultimately show False by simp
qed

lemma query_all_fibre:
  assumes "f \<in> set (query_all (final_query db board fl))"
  shows "fibre db fl f \<noteq> []"
proof -
  from assms have "f \<in> jr_filterset ` set (q_rows (final_query db board fl))"
    by (rule query_all_rows)
  then obtain r f' where r: "r \<in> set (fibre db fl f')" "jr_filterset r = f"
    by (auto simp: final_rows)
  with fibre_filterset [of db fl f'] have "f' = f" by auto
  with r show ?thesis by auto
qed

text \<open>
  The \<open>else\<close> branch of a many-to-many block: with no name under the key, a row that
  \<open>from_filters\<close> returns has no association of the kind.
\<close>

lemma from_filters_absent_no_assoc:
  assumes "from_filters db board fl = Inr (Some f)" and "names_of fl k = []"
  shows "no_assoc db k f"
proof -
  from assms(1) have "f \<in> set (query_all (final_query db board fl))"
    unfolding from_filters_eq final_query_def [symmetric] by (rule one_or_none_Some)
  then have "fibre db fl f \<noteq> []" by (rule query_all_fibre)
  then have "0 < length (fibre db fl f)" by simp
  then have "0 < joined_rows db fl f"
    by (simp add: fibre_length split: if_splits)
  then have "0 < crit_count db k (names_of fl k) f"
    by (cases k) (simp_all add: joined_rows_names_of)
  with assms(2) show ?thesis
    by (simp add: crit_count_def no_assoc_def split: if_splits)
qed

section \<open>The listener and the migration: basic facts\<close>

lemma format_geonameids_fields:
  "fs_id (format_geonameids target) = fs_id target"
  "fs_board (format_geonameids target) = fs_board target"
  by (simp_all add: format_geonameids_def)

lemma format_and_validate_cases:
  "format_and_validate db target =
     (case from_filters db (fs_board target) (to_filters (format_geonameids target)) of
        Inl e \<Rightarrow> Inl e
      | Inr None \<Rightarrow> Inr (format_geonameids target)
      | Inr (Some r) \<Rightarrow>
          (if Some (row_id r) \<noteq> fs_id target
           then Inl (ValueError ''There already exists a filter set with this filter criteria'')
           else Inr (format_geonameids target)))"
  by (simp add: format_and_validate_def Let_def format_geonameids_fields
      split: sum.splits option.splits)

lemma format_and_validate_Inr:
  assumes "format_and_validate db target = Inr target'"
  shows "target' = format_geonameids target"
  using assms unfolding format_and_validate_cases
  by (auto split: sum.splits option.splits if_splits)

lemma matches_no_filters:
  "matches db board no_filters f = (row_board_id f = board \<and> unfiltered db f)"
  by (auto simp: matches_def scalar_ok_def joined_rows_def crit_count_def count_ok_def
      no_filters_def get_list_def truthy_bool_def truthy_int_def unfiltered_def no_assoc_def)

lemma no_filters_ungrouped: "\<not> q_group_by (final_query db board no_filters)"
  by (simp add: final_group_by no_filters_def get_list_def)

section \<open>The claims\<close>

text \<open>
  C1. The claim is that with a non-empty list under one of the keys t, c, k, d,
  \<open>from_filters\<close> matches only filter sets whose associated entities of that kind are
  exactly the supplied ones, never a mere superset, and that with no list it matches only
  filter sets with no association of the kind (\<open>from_filters_absent_no_assoc\<close> above).
  The query counts only the joined rows that passed the \<open>name IN (...)\<close> condition, so
  the associations that are not in the list are never counted: in \<open>db_superset\<close> the
  filter set with the job types fulltime and intern is returned for the filters
  \<open>{'t': ['fulltime']}\<close>.
\<close>

theorem from_filters_returns_superset:
  "from_filters db_superset 1 (no_filters\<lparr> f_t := Some [''fulltime''] \<rparr>) = Inr (Some (row_ex 1)) \<and>
   map ent_name (related db_superset JobTypeK (row_id (row_ex 1))) = [''fulltime'', ''intern'']"
  by code_simp

text \<open>
  C2. The claim is that \<open>from_filters(board, fs.to_filters())\<close> returns \<open>fs\<close> for
  every persisted filter set. The filter set of \<open>db_product\<close> has two
  job types and one category; the two joins give it two joined rows, both HAVING counts are 2,
  and the count for the categories is compared with 1: the lookup returns \<open>None\<close>.
\<close>

theorem from_filters_to_filters_not_found:
  "filterset_table db_product = [row_ex 1] \<and>
   from_filters db_product (row_board_id (row_ex 1)) (to_filters (load db_product (row_ex 1))) =
     Inr None"
  by code_simp

text \<open>
  C3. The claim is that saving a filter set whose canonical filter dictionary equals that of
  another persisted filter set of the board raises the validation error. \<open>target_dup\<close> is unsaved and has the dictionary of the filter set in
  \<open>db_product\<close>; the lookup of the listener finds nothing, as in C2, and the listener
  returns without raising.
\<close>

theorem format_and_validate_accepts_duplicate:
  "to_filters (format_geonameids target_dup) = to_filters (load db_product (row_ex 1)) \<and>
   fs_board target_dup = row_board_id (row_ex 1) \<and>
   fs_id target_dup = None \<and>
   format_and_validate db_product target_dup = Inr target_dup"
  by code_simp

text \<open>
  C4. \<open>from_filters\<close> returns \<open>None\<close> when no stored row matches the composed predicate,
  the row when exactly one matches, and raises \<open>MultipleResultsFound\<close> when more than one
  does. \<open>matches\<close> is the composed predicate on a single row; \<open>filterset.id\<close> is the
  primary key.
\<close>

theorem from_filters_one_or_none:
  assumes "distinct (map row_id (filterset_table db))"
  shows "from_filters db board fl =
     (case filter (matches db board fl) (filterset_table db) of
        [] \<Rightarrow> Inr None
      | [r] \<Rightarrow> Inr (Some r)
      | _ \<Rightarrow> Inl MultipleResultsFound)"
  using assms by (rule from_filters_matches)

theorem from_filters_one_or_none_witness:
  "distinct (map row_id (filterset_table db_two)) \<and>
   filter (matches db_two 1 (no_filters\<lparr> f_t := Some [''fulltime''] \<rparr>)) (filterset_table db_two) =
     [row_ex 1, row_ex 2] \<and>
   from_filters db_two 1 (no_filters\<lparr> f_t := Some [''fulltime''] \<rparr>) = Inl MultipleResultsFound"
proof -
  have d: "distinct (map row_id (filterset_table db_two))"
    by code_simp
  have m: "filter (matches db_two 1 (no_filters\<lparr> f_t := Some [''fulltime''] \<rparr>))
      (filterset_table db_two) = [row_ex 1, row_ex 2]"
    by code_simp
  from from_filters_one_or_none [OF d, of 1 "no_filters\<lparr> f_t := Some [''fulltime''] \<rparr>"] d m
  show ?thesis by simp
qed

text \<open>
  C5. When the listener lets the insert or update go on, the \<open>geonameids\<close> of the target
  are in ascending order and hold the same ids as before, whatever their order was.
\<close>

theorem format_and_validate_sorted:
  assumes "format_and_validate db target = Inr target'"
  shows "sorted (fs_geonameids target') \<and>
         mset (fs_geonameids target') = mset (fs_geonameids target)"
proof -
  from assms have "target' = format_geonameids target"
    by (rule format_and_validate_Inr)
  then show ?thesis
    by (simp add: format_geonameids_def)
qed

theorem format_and_validate_sorted_witness:
  "format_and_validate empty_db target_unsorted =
     Inr (target_unsorted\<lparr> fs_geonameids := [1264527, 1275339, 1277333] \<rparr>) \<and>
   sorted (fs_geonameids (target_unsorted\<lparr> fs_geonameids := [1264527, 1275339, 1277333] \<rparr>)) \<and>
   mset (fs_geonameids (target_unsorted\<lparr> fs_geonameids := [1264527, 1275339, 1277333] \<rparr>)) =
     mset (fs_geonameids target_unsorted)"
proof -
  have e: "format_and_validate empty_db target_unsorted =
      Inr (target_unsorted\<lparr> fs_geonameids := [1264527, 1275339, 1277333] \<rparr>)"
    by code_simp
  from format_and_validate_sorted [OF e] e show ?thesis by simp
qed




text \<open>
  C7. With no key in the filters dictionary, the rows that match are exactly the rows of the
  board with no association of any of the four kinds, no geonameids, equity and
  remote_location false, pay_cash and pay_currency null and no keywords; \<open>from_filters\<close>
  returns such a row and no other.
\<close>

theorem from_filters_no_filters:
  "from_filters db board no_filters =
     (case filter (\<lambda>f. row_board_id f = board \<and> unfiltered db f) (filterset_table db) of
        [] \<Rightarrow> Inr None
      | [r] \<Rightarrow> Inr (Some r)
      | _ \<Rightarrow> Inl MultipleResultsFound)"
proof -
  have "query_all (final_query db board no_filters) =
      filter (matches db board no_filters) (filterset_table db)"
    using no_filters_ungrouped by (rule query_all_ungrouped)
  then show ?thesis
    unfolding from_filters_eq final_query_def [symmetric] one_or_none_def matches_no_filters
    by simp
qed

text \<open>
  C8. On a schema with the column \<open>jobpost.datetime\<close> and no index of the name, the upgrade
  adds the index \<open>ix_jobpost_datetime\<close> on that column, not unique, and changes nothing
  else; the downgrade then gives back the schema the upgrade started from.
\<close>

theorem upgrade_downgrade:
  assumes "tables s ''jobpost'' = Some cols" and "''datetime'' \<in> set cols"
    and "indexes s ''ix_jobpost_datetime'' = None"
  shows "upgrade s =
           Inr (s\<lparr> indexes := (indexes s)(''ix_jobpost_datetime'' \<mapsto>
             \<lparr> ix_table = ''jobpost'', ix_columns = [''datetime''], ix_unique = False \<rparr>) \<rparr>) \<and>
         downgrade (s\<lparr> indexes := (indexes s)(''ix_jobpost_datetime'' \<mapsto>
             \<lparr> ix_table = ''jobpost'', ix_columns = [''datetime''], ix_unique = False \<rparr>) \<rparr>) = Inr s"
proof -
  have "(indexes s)(''ix_jobpost_datetime'' := None) = indexes s"
    using assms(3) by (rule fun_upd_idem)
  with assms show ?thesis
    by (simp add: upgrade_def downgrade_def create_index_def drop_index_def)
qed

theorem upgrade_downgrade_witness:
  "tables schema_ex ''jobpost'' = Some [''id'', ''datetime'', ''headline''] \<and>
   ''datetime'' \<in> set [''id'', ''datetime'', ''headline''] \<and>
   indexes schema_ex ''ix_jobpost_datetime'' = None \<and>
   upgrade schema_ex =
     Inr (schema_ex\<lparr> indexes := (indexes schema_ex)(''ix_jobpost_datetime'' \<mapsto>
       \<lparr> ix_table = ''jobpost'', ix_columns = [''datetime''], ix_unique = False \<rparr>) \<rparr>) \<and>
   downgrade (schema_ex\<lparr> indexes := (indexes schema_ex)(''ix_jobpost_datetime'' \<mapsto>
       \<lparr> ix_table = ''jobpost'', ix_columns = [''datetime''], ix_unique = False \<rparr>) \<rparr>) =
     Inr schema_ex"
proof -
  have t: "tables schema_ex ''jobpost'' = Some [''id'', ''datetime'', ''headline'']"
    by (simp add: schema_ex_def)
  have c: "''datetime'' \<in> set [''id'', ''datetime'', ''headline'']"
    by simp
  have i: "indexes schema_ex ''ix_jobpost_datetime'' = None"
    by (simp add: schema_ex_def)
  from upgrade_downgrade [OF t c i] t c i show ?thesis by simp
qed

text \<open>
  C9, as stated: when a many-to-many list holds a name twice, the count is compared with the
  length of the raw list, so the filter set whose associations are the names without the
  repetition is not returned. The count is the number of joined rows, and a
  second join multiplies it: in \<open>db_dup\<close> the filter set with the job type fulltime and two
  categories has two joined rows, and it is returned for
  \<open>{'t': ['fulltime', 'fulltime'], 'c': ['programming', 'design']}\<close>.
\<close>

theorem from_filters_duplicates_counterexample:
  "map ent_name (related db_dup JobTypeK (row_id (row_ex 1))) = [''fulltime''] \<and>
   from_filters db_dup 1
     (no_filters\<lparr> f_t := Some [''fulltime'', ''fulltime''],
                  f_c := Some [''programming'', ''design''] \<rparr>) = Inr (Some (row_ex 1))"
  by code_simp

text \<open>
  C9, as the code has it. When the list with a repeated name is the only many-to-many criterion
  supplied (the other three are absent or empty), \<open>from_filters\<close> returns \<open>None\<close>: no
  filter set passes the count test, the one whose associations are the names without the
  repetition included. Ids of filter sets, rows of the association table and names of the
  entities are unique, as the schema declares them.
\<close>

theorem from_filters_duplicates_alone:
  assumes "distinct (map row_id (filterset_table db))"
    and "distinct (assoc_table db k)" and "distinct (map ent_name (entity_table db k))"
    and "\<not> distinct (names_of fl k)" and "\<forall>k'. k' \<noteq> k \<longrightarrow> names_of fl k' = []"
  shows "from_filters db board fl = Inr None"
proof -
  have "filter (matches db board fl) (filterset_table db) = []"
    using duplicates_no_match [OF assms(2-5)] by (simp add: filter_empty_conv)
  with from_filters_matches [OF assms(1), of board fl] show ?thesis by simp
qed

theorem from_filters_duplicates_alone_witness:
  "distinct (map row_id (filterset_table db_single)) \<and>
   distinct (assoc_table db_single JobTypeK) \<and>
   distinct (map ent_name (entity_table db_single JobTypeK)) \<and>
   \<not> distinct (names_of (no_filters\<lparr> f_t := Some [''fulltime'', ''fulltime''] \<rparr>) JobTypeK) \<and>
   map ent_name (related db_single JobTypeK (row_id (row_ex 1))) = [''fulltime''] \<and>
   from_filters db_single 1 (no_filters\<lparr> f_t := Some [''fulltime'', ''fulltime''] \<rparr>) = Inr None"
proof -
  let ?fl = "no_filters\<lparr> f_t := Some [''fulltime'', ''fulltime''] \<rparr>"
  have a: "distinct (map row_id (filterset_table db_single))"
    by code_simp
  have b: "distinct (assoc_table db_single JobTypeK)"
    by code_simp
  have c: "distinct (map ent_name (entity_table db_single JobTypeK))"
    by code_simp
  have d: "\<not> distinct (names_of ?fl JobTypeK)"
    by code_simp
  have e: "\<forall>k'. k' \<noteq> JobTypeK \<longrightarrow> names_of ?fl k' = []"
  proof (intro allI impI)
    fix k' :: kind assume "k' \<noteq> JobTypeK"
    then show "names_of ?fl k' = []"
      by (cases k') (simp_all add: no_filters_def get_list_def)
  qed
  have r: "map ent_name (related db_single JobTypeK (row_id (row_ex 1))) = [''fulltime'']"
    by code_simp
  from from_filters_duplicates_alone [OF a b c d e, of 1] a b c d r show ?thesis by simp
qed

text \<open>
  The guard of the listener: it raises the validation error exactly when the lookup for the
  target's criteria returns a row whose id is not the target's.
\<close>

lemma listener_guard:
  "(\<exists>m. format_and_validate db target = Inl (ValueError m)) =
   (\<exists>r. from_filters db (fs_board target) (to_filters (format_geonameids target)) = Inr (Some r) \<and>
        Some (row_id r) \<noteq> fs_id target)"
proof (cases "from_filters db (fs_board target) (to_filters (format_geonameids target))")
  case (Inl e)
  have "e = MultipleResultsFound"
  proof (cases "query_all (final_query db (fs_board target) (to_filters (format_geonameids target)))")
    case Nil
    with Inl show ?thesis
      unfolding from_filters_eq final_query_def [symmetric] by (simp add: one_or_none_def)
  next
    case (Cons r rs)
    with Inl show ?thesis
      unfolding from_filters_eq final_query_def [symmetric]
      by (cases rs) (simp_all add: one_or_none_def)
  qed
  with Inl show ?thesis
    by (simp add: format_and_validate_cases)
next
  case (Inr res)
  then show ?thesis
    by (cases res) (simp_all add: format_and_validate_cases)
qed

text \<open>
  C10. The claim is that the listener raises only when the lookup finds another row, so that
  an update which leaves the criteria of a persisted filter set unchanged finds the filter
  set itself and never raises. The listener admits filter set 1 into the empty database and
  then filter set 2 beside it, which gives \<open>db_both\<close>. There the lookup for the criteria of
  filter set 1 does not return it (its four joined rows fail both counts) and returns filter
  set 2 (two joined rows, both lists of length two): saving filter set 1 unchanged raises.
\<close>

theorem format_and_validate_unchanged_update_raises:
  "format_and_validate empty_db ((load db_both (row_ex 1))\<lparr> fs_id := None \<rparr>) =
     Inr ((load db_both (row_ex 1))\<lparr> fs_id := None \<rparr>) \<and>
   format_and_validate db_first ((load db_both (row_ex 2))\<lparr> fs_id := None \<rparr>) =
     Inr ((load db_both (row_ex 2))\<lparr> fs_id := None \<rparr>) \<and>
   load db_first (row_ex 1) = load db_both (row_ex 1) \<and>
   from_filters db_both 1 (to_filters (load db_both (row_ex 1))) = Inr (Some (row_ex 2)) \<and>
   format_and_validate db_both (load db_both (row_ex 1)) =
     Inl (ValueError ''There already exists a filter set with this filter criteria'')"
  by code_simp

end
